theory Spec2Isabelle
  imports Main
begin

section \<open>The persistent vector of vector.go on an explicit heap\<close>

text \<open>
  The Go package implements a 32-way bitmapped trie with a tail buffer.  Nodes are
  reached through pointers and some operations write into nodes in place, so the model
  keeps an explicit store of nodes: every function takes the heap and returns the heap
  it leaves behind.  A panic of the Go code is a value of type \<open>error\<close>.

  Go's \<open>int\<close> is modelled by \<open>int\<close>: a vector never holds \<open>2^63\<close> elements, so
  \<open>cnt + 1\<close> and \<open>1 << shift\<close> never wrap.  For the non-negative indices that reach
  them, \<open>i >> level\<close> is \<open>i div 2 ^ level\<close> and \<open>i & mask\<close> is \<open>i mod 32\<close>.
  The element type \<open>T\<close> is a type with a zero value, written \<open>0\<close>.
\<close>

subsection \<open>Data\<close>

datatype error =
    OutOfRange        \<comment> \<open>\<open>panic("index out of bounds")\<close>\<close>
  | NilDereference    \<comment> \<open>a field of a nil \<open>*node\<close> is read or written\<close>
  | TypeAssertion     \<comment> \<open>\<open>x.(*node[T])\<close> on a slot that holds no \<open>*node[T]\<close>\<close>
  | NegativeShift     \<comment> \<open>a shift by a negative count\<close>
  | IndexRange        \<comment> \<open>an array index outside \<open>0..31\<close>\<close>
  | SliceBounds       \<comment> \<open>a slice bound outside \<open>0..32\<close>\<close>

type_synonym addr = nat

text \<open>
  A slot of \<open>array [width]any\<close> is an interface value: the nil interface, a \<open>*node[T]\<close>
  (which may itself be the nil pointer: an interface that holds a nil pointer is not the
  nil interface), an element of type \<open>T\<close>, or the struct value \<open>node[T]{}\<close> that
  \<open>popTail\<close> stores.
\<close>

datatype 'a slot = NilIface | NodePtr "addr option" | Elem 'a | NodeVal

record 'a node =
  len :: int
  array :: "'a slot list"

record 'a heap =
  store :: "addr \<Rightarrow> 'a node"
  next_addr :: addr

text \<open>\<open>Vector[T]\<close> and \<open>Builder[T]\<close> have the same four fields; the conversions between
  them copy the fields.\<close>

record vector =
  cnt :: int
  shift :: int
  root :: "addr option"
  tail :: "addr option"

type_synonym builder = vector

abbreviation bits :: int where "bits \<equiv> 5"
abbreviation width :: int where "width \<equiv> 32"
abbreviation mask :: int where "mask \<equiv> width - 1"

text \<open>\<open>(i >> level) & mask\<close>, for \<open>level \<ge> 0\<close>.\<close>

definition subidx :: "int \<Rightarrow> int \<Rightarrow> nat" where
  "subidx i level = nat ((i div 2 ^ nat level) mod width)"

definition zero_node :: "'a node" where
  "zero_node = \<lparr>len = 0, array = replicate 32 NilIface\<rparr>"

definition zero_vector :: vector where
  "zero_vector = \<lparr>cnt = 0, shift = 0, root = None, tail = None\<rparr>"

subsection \<open>Allocation and node primitives\<close>

definition alloc :: "'a node \<Rightarrow> 'a heap \<Rightarrow> addr \<times> 'a heap" where
  "alloc n h =
     (next_addr h, h\<lparr>store := (store h)(next_addr h := n), next_addr := Suc (next_addr h)\<rparr>)"

definition set_slot :: "addr \<Rightarrow> nat \<Rightarrow> 'a slot \<Rightarrow> 'a heap \<Rightarrow> 'a heap" where
  "set_slot a k x h =
     h\<lparr>store := (store h)(a := (store h a)\<lparr>array := (array (store h a))[k := x]\<rparr>)\<rparr>"

definition add_len :: "addr \<Rightarrow> int \<Rightarrow> 'a heap \<Rightarrow> 'a heap" where
  "add_len a d h = h\<lparr>store := (store h)(a := (store h a)\<lparr>len := len (store h a) + d\<rparr>)\<rparr>"

definition clone :: "addr option \<Rightarrow> 'a heap \<Rightarrow> error + (addr \<times> 'a heap)" where
  "clone n h = (case n of None \<Rightarrow> Inl NilDereference | Some a \<Rightarrow> Inr (alloc (store h a) h))"

definition newValueNode :: "'a \<Rightarrow> 'a heap \<Rightarrow> addr \<times> 'a heap" where
  "newValueNode t h = alloc \<lparr>len = 1, array = (replicate 32 NilIface)[0 := Elem t]\<rparr> h"

definition newPathNode :: "addr option \<Rightarrow> 'a heap \<Rightarrow> addr \<times> 'a heap" where
  "newPathNode n h = alloc \<lparr>len = 1, array = (replicate 32 NilIface)[0 := NodePtr n]\<rparr> h"

definition newVector :: "'a heap \<Rightarrow> vector \<times> 'a heap" where
  "newVector h =
     (let (a, h1) = alloc zero_node h
      in (\<lparr>cnt = 0, shift = bits, root = Some a, tail = Some a\<rparr>, h1))"

text \<open>\<open>if v == (Vector[T]{}) { v = newVector[T]() }\<close>\<close>

definition orNewVector :: "vector \<Rightarrow> 'a heap \<Rightarrow> vector \<times> 'a heap" where
  "orNewVector v h = (if v = zero_vector then newVector h else (v, h))"

subsection \<open>Reading\<close>

definition Vector_Len :: "vector \<Rightarrow> int" where
  "Vector_Len v = cnt v"

definition tailoff :: "vector \<Rightarrow> int" where
  "tailoff v = (if cnt v < width then 0 else ((cnt v - 1) div 32) * 32)"

text \<open>The loop of \<open>nodeFor\<close>: \<open>for level := v.shift; level > 0; level -= bits\<close>.\<close>

function descend :: "'a heap \<Rightarrow> int \<Rightarrow> int \<Rightarrow> addr option \<Rightarrow> error + addr option" where
  "descend h i level n =
     (if level > 0 then
        (case n of
           None \<Rightarrow> Inl NilDereference
         | Some a \<Rightarrow>
             (case array (store h a) ! subidx i level of
                NodePtr c \<Rightarrow> descend h i (level - bits) c
              | _ \<Rightarrow> Inl TypeAssertion))
      else Inr n)"
  by pat_completeness auto
termination
  by (relation "measure (\<lambda>(h, i, level, n). nat level)") auto

declare descend.simps [simp del]

definition nodeFor :: "'a heap \<Rightarrow> vector \<Rightarrow> int \<Rightarrow> error + addr option" where
  "nodeFor h v i =
     (if i \<ge> 0 \<and> i < cnt v then
        (if i \<ge> tailoff v then Inr (tail v) else descend h i (shift v) (root v))
      else Inl OutOfRange)"

text \<open>\<open>t, _ := v.nodeFor(i).array[i&mask].(T)\<close>: a slot that holds no \<open>T\<close> gives the
  zero value.\<close>

definition Vector_At :: "'a::zero heap \<Rightarrow> vector \<Rightarrow> int \<Rightarrow> error + 'a" where
  "Vector_At h v i =
     (case nodeFor h v i of
        Inl e \<Rightarrow> Inl e
      | Inr None \<Rightarrow> Inl NilDereference
      | Inr (Some a) \<Rightarrow>
          (case array (store h a) ! nat (i mod width) of
             Elem x \<Rightarrow> Inr x
           | _ \<Rightarrow> Inr 0))"

subsection \<open>Set\<close>

text \<open>\<open>doAssoc\<close> starts from \<open>ret := n\<close>: it writes into the node it was given.\<close>

function doAssoc :: "int \<Rightarrow> addr option \<Rightarrow> int \<Rightarrow> 'a \<Rightarrow> 'a heap \<Rightarrow> error + (addr option \<times> 'a heap)" where
  "doAssoc level n i t h =
     (if level = 0 then
        (case n of
           None \<Rightarrow> Inl NilDereference
         | Some a \<Rightarrow> Inr (n, set_slot a (nat (i mod width)) (Elem t) h))
      else if level < 0 then Inl NegativeShift
      else
        (case n of
           None \<Rightarrow> Inl NilDereference
         | Some a \<Rightarrow>
             (case array (store h a) ! subidx i level of
                NodePtr c \<Rightarrow>
                  (case doAssoc (level - bits) c i t h of
                     Inl e \<Rightarrow> Inl e
                   | Inr (r, h1) \<Rightarrow> Inr (n, set_slot a (subidx i level) (NodePtr r) h1))
              | _ \<Rightarrow> Inl TypeAssertion)))"
  by pat_completeness auto
termination
  by (relation "measure (\<lambda>(level, n, i, t, h). nat level)") auto

declare doAssoc.simps [simp del]

subsection \<open>Appending to a Vector\<close>

function newPath :: "int \<Rightarrow> addr option \<Rightarrow> 'a heap \<Rightarrow> addr option \<times> 'a heap" where
  "newPath level n h =
     (if level \<le> 0 then (n, h)
      else
        (let (p, h1) = newPath (level - bits) n h;
             (a, h2) = newPathNode p h1
         in (Some a, h2)))"
  by pat_completeness auto
termination
  by (relation "measure (\<lambda>(level, n, h). nat level)") auto

declare newPath.simps [simp del]

function Vector_pushTail ::
  "vector \<Rightarrow> int \<Rightarrow> addr option \<Rightarrow> addr option \<Rightarrow> 'a heap \<Rightarrow> error + (addr option \<times> 'a heap)" where
  "Vector_pushTail v level parent tailNode h =
     (if level < 0 then Inl NegativeShift
      else
        (case clone parent h of
           Inl e \<Rightarrow> Inl e
         | Inr (ret, h1) \<Rightarrow>
             (case
                (if level = bits then Inr (tailNode, h1)
                 else
                   (case array (store h1 (the parent)) ! subidx (cnt v - 1) level of
                      NilIface \<Rightarrow> Inr (newPath (level - bits) tailNode h1)
                    | NodePtr c \<Rightarrow> Vector_pushTail v (level - bits) c tailNode h1
                    | _ \<Rightarrow> Inl TypeAssertion))
              of
                Inl e \<Rightarrow> Inl e
              | Inr (nodeToInsert, h2) \<Rightarrow>
                  Inr (Some ret, set_slot ret (subidx (cnt v - 1) level) (NodePtr nodeToInsert) h2))))"
  by pat_completeness auto
termination
  by (relation "measure (\<lambda>(v, level, parent, tailNode, h). nat (level + bits))") auto

declare Vector_pushTail.simps [simp del]

definition Vector_cons :: "vector \<Rightarrow> 'a \<Rightarrow> 'a heap \<Rightarrow> error + (vector \<times> 'a heap)" where
  "Vector_cons v0 t h0 =
     (let (v, h) = orNewVector v0 h0 in
      if cnt v - tailoff v < 32 then
        (case clone (tail v) h of
           Inl e \<Rightarrow> Inl e
         | Inr (newTail, h1) \<Rightarrow>
             (let k = len (store h1 (the (tail v))) in
              if k < 0 \<or> k \<ge> width then Inl IndexRange
              else
                Inr (\<lparr>cnt = cnt v + 1, shift = shift v, root = root v, tail = Some newTail\<rparr>,
                     set_slot newTail (nat k) (Elem t) (add_len newTail 1 h1))))
      else
        (let (newRoot, h1) = alloc zero_node h in
         case clone (tail v) h1 of
           Inl e \<Rightarrow> Inl e
         | Inr (tailNode, h2) \<Rightarrow>
             if shift v < 0 then Inl NegativeShift
             else if cnt v div 2 ^ nat bits > 2 ^ nat (shift v) then
               (let h3 = set_slot newRoot 0 (NodePtr (root v)) (add_len newRoot 2 h2);
                    (p, h4) = newPath (shift v) (Some tailNode) h3;
                    h5 = set_slot newRoot 1 (NodePtr p) h4;
                    (nt, h6) = newValueNode t h5
                in Inr (\<lparr>cnt = cnt v + 1, shift = shift v + bits, root = Some newRoot,
                          tail = Some nt\<rparr>, h6))
             else
               (case Vector_pushTail v (shift v) (root v) (Some tailNode) h2 of
                  Inl e \<Rightarrow> Inl e
                | Inr (r, h3) \<Rightarrow>
                    (let (nt, h4) = newValueNode t h3
                     in Inr (\<lparr>cnt = cnt v + 1, shift = shift v, root = r, tail = Some nt\<rparr>,
                             h4)))))"

definition Vector_Set :: "vector \<Rightarrow> int \<Rightarrow> 'a \<Rightarrow> 'a heap \<Rightarrow> error + (vector \<times> 'a heap)" where
  "Vector_Set v index t h =
     (if index \<ge> 0 \<and> index < cnt v then
        (if index \<ge> tailoff v then
           (case clone (tail v) h of
              Inl e \<Rightarrow> Inl e
            | Inr (newTail, h1) \<Rightarrow>
                Inr (\<lparr>cnt = cnt v, shift = shift v, root = root v, tail = Some newTail\<rparr>,
                     set_slot newTail (nat (index mod width)) (Elem t) h1))
         else
           (case doAssoc (shift v) (root v) index t h of
              Inl e \<Rightarrow> Inl e
            | Inr (r, h1) \<Rightarrow>
                Inr (\<lparr>cnt = cnt v, shift = shift v, root = r, tail = tail v\<rparr>, h1)))
      else if index = cnt v then Vector_cons v t h
      else Inl OutOfRange)"

subsection \<open>Pop\<close>

function popTail :: "vector \<Rightarrow> int \<Rightarrow> addr option \<Rightarrow> 'a heap \<Rightarrow> error + (addr option \<times> 'a heap)" where
  "popTail v level n h =
     (if level < 0 then Inl NegativeShift
      else if level > bits then
        (case n of
           None \<Rightarrow> Inl NilDereference
         | Some a \<Rightarrow>
             (case array (store h a) ! subidx (cnt v - 2) level of
                NodePtr c \<Rightarrow>
                  (case popTail v (level - bits) c h of
                     Inl e \<Rightarrow> Inl e
                   | Inr (newChild, h1) \<Rightarrow>
                       if newChild = None \<and> subidx (cnt v - 2) level = 0 then Inr (None, h1)
                       else
                         (case clone n h1 of
                            Inl e \<Rightarrow> Inl e
                          | Inr (ret, h2) \<Rightarrow>
                              Inr (Some ret,
                                   set_slot ret (subidx (cnt v - 2) level) (NodePtr newChild) h2)))
              | _ \<Rightarrow> Inl TypeAssertion))
      else if subidx (cnt v - 2) level = 0 then Inr (None, h)
      else
        (case clone n h of
           Inl e \<Rightarrow> Inl e
         | Inr (ret, h1) \<Rightarrow> Inr (Some ret, set_slot ret (subidx (cnt v - 2) level) NodeVal h1)))"
  by pat_completeness auto
termination
  by (relation "measure (\<lambda>(v, level, n, h). nat level)") auto

declare popTail.simps [simp del]

definition Vector_Pop :: "vector \<Rightarrow> 'a heap \<Rightarrow> error + (vector \<times> 'a heap)" where
  "Vector_Pop v h =
     (if cnt v \<le> 1 then Inr (zero_vector, h)
      else if cnt v - tailoff v > 1 then
        (case tail v of
           None \<Rightarrow> Inl NilDereference
         | Some ta \<Rightarrow>
             (let k = len (store h ta) - 1 in
              if k < 0 \<or> k > width then Inl SliceBounds
              else
                (let (newTail, h1) =
                       alloc \<lparr>len = k,
                              array = take (nat k) (array (store h ta)) @
                                      replicate (32 - nat k) NilIface\<rparr> h
                 in Inr (\<lparr>cnt = cnt v - 1, shift = shift v, root = root v,
                           tail = Some newTail\<rparr>, h1))))
      else
        (case nodeFor h v (cnt v - 2) of
           Inl e \<Rightarrow> Inl e
         | Inr newTail \<Rightarrow>
             (case popTail v (shift v) (root v) h of
                Inl e \<Rightarrow> Inl e
              | Inr (r, h1) \<Rightarrow>
                  (let (newRoot, h2) =
                         (case r of None \<Rightarrow> alloc zero_node h1 | Some a \<Rightarrow> (a, h1))
                   in
                     if shift v > bits \<and> array (store h2 newRoot) ! 1 = NilIface then
                       (let (newRoot', h3) =
                              (if array (store h2 newRoot) ! 0 = NilIface
                               then alloc zero_node h2 else (newRoot, h2))
                        in Inr (\<lparr>cnt = cnt v - 1, shift = shift v - bits,
                                  root = Some newRoot', tail = newTail\<rparr>, h3))
                     else
                       Inr (\<lparr>cnt = cnt v - 1, shift = shift v, root = Some newRoot,
                             tail = newTail\<rparr>, h2)))))"

subsection \<open>Builder\<close>

definition transient :: "vector \<Rightarrow> 'a heap \<Rightarrow> error + (builder \<times> 'a heap)" where
  "transient v0 h0 =
     (let (v, h) = orNewVector v0 h0 in
      case clone (root v) h of
        Inl e \<Rightarrow> Inl e
      | Inr (r, h1) \<Rightarrow>
          (case clone (tail v) h1 of
             Inl e \<Rightarrow> Inl e
           | Inr (t, h2) \<Rightarrow>
               Inr (\<lparr>cnt = cnt v, shift = shift v, root = Some r, tail = Some t\<rparr>, h2)))"

definition NewBuilder :: "'a heap \<Rightarrow> builder \<times> 'a heap" where
  "NewBuilder h = newVector h"

definition Builder_Vector :: "builder \<Rightarrow> vector" where
  "Builder_Vector t = t"

definition Builder_Len :: "builder \<Rightarrow> int" where
  "Builder_Len t = cnt t"

text \<open>The builder's \<open>pushTail\<close> starts from \<open>ret := parent\<close> and does not clone.\<close>

function Builder_pushTail ::
  "builder \<Rightarrow> int \<Rightarrow> addr option \<Rightarrow> addr option \<Rightarrow> 'a heap \<Rightarrow> error + (addr option \<times> 'a heap)" where
  "Builder_pushTail t level parent tailNode h =
     (if level < 0 then Inl NegativeShift
      else
        (case
           (if level = bits then Inr (tailNode, h)
            else
              (case parent of
                 None \<Rightarrow> Inl NilDereference
               | Some pa \<Rightarrow>
                   (case array (store h pa) ! subidx (cnt t - 1) level of
                      NilIface \<Rightarrow> Inr (newPath (level - bits) tailNode h)
                    | NodePtr c \<Rightarrow> Builder_pushTail t (level - bits) c tailNode h
                    | _ \<Rightarrow> Inl TypeAssertion)))
         of
           Inl e \<Rightarrow> Inl e
         | Inr (nodeToInsert, h1) \<Rightarrow>
             (case parent of
                None \<Rightarrow> Inl NilDereference
              | Some pa \<Rightarrow>
                  Inr (parent, set_slot pa (subidx (cnt t - 1) level) (NodePtr nodeToInsert) h1))))"
  by pat_completeness auto
termination
  by (relation "measure (\<lambda>(t, level, parent, tailNode, h). nat (level + bits))") auto

declare Builder_pushTail.simps [simp del]

definition Builder_Cons :: "builder \<Rightarrow> 'a \<Rightarrow> 'a heap \<Rightarrow> error + (builder \<times> 'a heap)" where
  "Builder_Cons t val h =
     (if cnt t - tailoff t < 32 then
        (case tail t of
           None \<Rightarrow> Inl NilDereference
         | Some ta \<Rightarrow>
             Inr (t\<lparr>cnt := cnt t + 1\<rparr>,
                  add_len ta 1 (set_slot ta (nat (cnt t mod width)) (Elem val) h)))
      else
        (let (newRoot, h1) = alloc zero_node h in
         case clone (tail t) h1 of
           Inl e \<Rightarrow> Inl e
         | Inr (tailNode, h2) \<Rightarrow>
             (let (nt, h3) = newValueNode val h2 in
              if shift t < 0 then Inl NegativeShift
              else if cnt t div 2 ^ nat bits > 2 ^ nat (shift t) then
                (let h4 = set_slot newRoot 0 (NodePtr (root t)) (add_len newRoot 2 h3);
                     (p, h5) = newPath (shift t) (Some tailNode) h4;
                     h6 = set_slot newRoot 1 (NodePtr p) h5
                 in Inr (\<lparr>cnt = cnt t + 1, shift = shift t + 5, root = Some newRoot,
                           tail = Some nt\<rparr>, h6))
              else
                (case Builder_pushTail (t\<lparr>tail := Some nt\<rparr>) (shift t) (root t)
                        (Some tailNode) h3 of
                   Inl e \<Rightarrow> Inl e
                 | Inr (r, h4) \<Rightarrow>
                     Inr (\<lparr>cnt = cnt t + 1, shift = shift t, root = r, tail = Some nt\<rparr>, h4)))))"

fun Builder_Append :: "builder \<Rightarrow> 'a list \<Rightarrow> 'a heap \<Rightarrow> error + (builder \<times> 'a heap)" where
  "Builder_Append t [] h = Inr (t, h)"
| "Builder_Append t (val # ts) h =
     (case Builder_Cons t val h of
        Inl e \<Rightarrow> Inl e
      | Inr (t1, h1) \<Rightarrow> Builder_Append t1 ts h1)"

subsection \<open>Constructors and Append\<close>

definition New :: "'a list \<Rightarrow> 'a heap \<Rightarrow> error + (vector \<times> 'a heap)" where
  "New items h =
     (if length items > 0 then
        (case transient zero_vector h of
           Inl e \<Rightarrow> Inl e
         | Inr (trans1, h1) \<Rightarrow>
             (case Builder_Append trans1 items h1 of
                Inl e \<Rightarrow> Inl e
              | Inr (b, h2) \<Rightarrow> Inr (Builder_Vector b, h2)))
      else Inr (zero_vector, h))"

fun Vector_Append :: "vector \<Rightarrow> 'a list \<Rightarrow> 'a heap \<Rightarrow> error + (vector \<times> 'a heap)" where
  "Vector_Append v [] h = Inr (v, h)"
| "Vector_Append v [t] h = Vector_cons v t h"
| "Vector_Append v (head # ts) h =
     (case Vector_cons v head h of
        Inl e \<Rightarrow> Inl e
      | Inr (v1, h1) \<Rightarrow>
          (case transient v1 h1 of
             Inl e \<Rightarrow> Inl e
           | Inr (b, h2) \<Rightarrow>
               (case Builder_Append b ts h2 of
                  Inl e \<Rightarrow> Inl e
                | Inr (b1, h3) \<Rightarrow> Inr (Builder_Vector b1, h3))))"


definition empty_heap :: "'a heap" where
  "empty_heap = \<lparr>store = (\<lambda>_. zero_node), next_addr = 0\<rparr>"

section \<open>Which panic an operation can raise\<close>

lemma clone_not_OutOfRange: "clone n h \<noteq> Inl OutOfRange"
  by (simp add: clone_def split: option.splits)

lemma doAssoc_not_OutOfRange: "doAssoc level n i t h \<noteq> Inl OutOfRange"
proof (induction level n i t h rule: doAssoc.induct)
  case (1 level n i t h)
  show ?case
    apply (subst doAssoc.simps)
    using 1 by (auto split: option.splits slot.splits sum.splits)
qed

lemma Vector_pushTail_not_OutOfRange:
  "Vector_pushTail v level parent tailNode h \<noteq> Inl OutOfRange"
proof (induction v level parent tailNode h rule: Vector_pushTail.induct)
  case (1 v level parent tailNode h)
  show ?case
    apply (subst Vector_pushTail.simps)
    using 1 by (auto simp: clone_def split: option.splits slot.splits sum.splits prod.splits)
qed

lemma Vector_cons_not_OutOfRange: "Vector_cons v t h \<noteq> Inl OutOfRange"
  unfolding Vector_cons_def Let_def
  by (auto simp: clone_not_OutOfRange Vector_pushTail_not_OutOfRange
      split: sum.splits prod.splits)

section \<open>Set at the boundary\<close>

text \<open>
  Claim C7.  \<open>v.Set(v.Len(), x)\<close> is \<open>v.Append(x)\<close>: both run \<open>v.cons(x)\<close> on the same
  heap, so they return the same vector (or fail alike).  \<open>Set\<close> panics with
  "index out of bounds" exactly when the index is negative or greater than the length.
  The count of a vector is never negative.
\<close>

theorem Set_boundary:
  assumes "0 \<le> cnt v"
  shows "Vector_Set v (cnt v) x h = Vector_Append v [x] h \<and>
         (Vector_Set v i x h = Inl OutOfRange \<longleftrightarrow> (i < 0 \<or> i > cnt v))"
  using assms
  by (auto simp: Vector_Set_def clone_not_OutOfRange doAssoc_not_OutOfRange
      Vector_cons_not_OutOfRange split: sum.splits prod.splits)

theorem Set_boundary_witness:
  "Vector_Set zero_vector (cnt zero_vector) (7::int) empty_heap =
     Vector_Append zero_vector [7] empty_heap \<and>
   (Vector_Set zero_vector 1 (7::int) empty_heap = Inl OutOfRange \<longleftrightarrow>
     ((1::int) < 0 \<or> 1 > cnt zero_vector))"
  using Set_boundary [of zero_vector "7::int" empty_heap 1]
  by (simp add: zero_vector_def)

section \<open>The zero value\<close>

text \<open>
  Claim C10.  The zero value of \<open>Vector\<close> (count 0, nil root, nil tail) is a usable
  empty vector: its length is 0, \<open>Pop\<close> returns it, \<open>Append(x)\<close> and \<open>Set(0, x)\<close> return
  a vector of length 1 with \<open>x\<close> at index 0, and \<open>At\<close> reports the index out of range
  without touching the nil root or tail.
\<close>

theorem zero_value_usable:
  "Vector_Len zero_vector = 0 \<and>
   Vector_Pop zero_vector h = Inr (zero_vector, h) \<and>
   Vector_At h zero_vector i = Inl OutOfRange \<and>
   (\<exists>w h'. Vector_Append zero_vector [x] h = Inr (w, h') \<and> Vector_Len w = 1 \<and>
      Vector_At h' w 0 = Inr x) \<and>
   (\<exists>w h'. Vector_Set zero_vector 0 x h = Inr (w, h') \<and> Vector_Len w = 1 \<and>
      Vector_At h' w 0 = Inr x)"
  by (simp add: Vector_Len_def Vector_Pop_def Vector_At_def nodeFor_def zero_vector_def
      Vector_Set_def Vector_cons_def orNewVector_def newVector_def alloc_def clone_def
      tailoff_def zero_node_def set_slot_def add_len_def Let_def)

end
